theory Spec2Isabelle
  imports Main
begin

section \<open>JavaScript values and failures\<close>

text \<open>
  The program is a Node.js script. Its failures are exceptions (a rejected promise inside
  an \<^verbatim>\<open>async\<close> function); the model returns them as the left summand of a sum type.
  \<^item> \<open>TypeError p\<close>: a \<^verbatim>\<open>TypeError\<close>, raised by reading property \<open>p\<close> of \<^verbatim>\<open>undefined\<close>
    or, in the constructor of the SDK, by the missing option \<open>p\<close>;
  \<^item> \<open>ReferenceError x\<close>: evaluating the identifier \<open>x\<close>, which no enclosing scope binds;
  \<^item> \<open>Error msg\<close>: \<^verbatim>\<open>throw new Error(msg)\<close>;
  \<^item> \<open>ServiceError code\<close>: the rejection of a request to the object storage service.
\<close>

datatype error =
    TypeError string
  | ReferenceError string
  | Error string
  | ServiceError string

text \<open>
  A property that may be missing is an \<open>option\<close>: \<open>None\<close> is \<^verbatim>\<open>undefined\<close>. A string
  value is truthy when it is present and not empty; an object is always truthy. A string
  is the list of its characters; the string functions below only compare characters and
  count positions.
\<close>

definition truthy :: "string option \<Rightarrow> bool" where
  "truthy v = (case v of None \<Rightarrow> False | Some s \<Rightarrow> s \<noteq> [])"

text \<open>
  \<^verbatim>\<open>s.lastIndexOf(c)\<close> for a search string of one character: the greatest index at
  which \<open>c\<close> occurs, and \<open>-1\<close> when it does not occur.
\<close>

fun lastIndexOf :: "string \<Rightarrow> char \<Rightarrow> int" where
  "lastIndexOf [] c = - 1"
| "lastIndexOf (x # xs) c =
     (let r = lastIndexOf xs c
      in if 0 \<le> r then r + 1 else if x = c then 0 else - 1)"

text \<open>
  \<^verbatim>\<open>s.substring(start, end)\<close>: both indices are clamped to \<open>0 .. length s\<close>, swapped
  when the first is the greater, and the characters between them are returned.
\<close>

definition substring :: "string \<Rightarrow> int \<Rightarrow> int \<Rightarrow> string" where
  "substring s start end' =
     (let len = int (length s);
          finalStart = min (max start 0) len;
          finalEnd = min (max end' 0) len;
          from = min finalStart finalEnd;
          to = max finalStart finalEnd
      in take (nat (to - from)) (drop (nat from) s))"

section \<open>Data\<close>

text \<open>
  The service credential of the configuration. Only the properties that the client
  constructors read are modelled.
\<close>

record cos_hmac_keys =
  access_key_id :: "string option"
  secret_access_key :: "string option"

record serviceCredential =
  apikey :: "string option"
  resource_instance_id :: "string option"
  cos_hmac_keys :: "cos_hmac_keys option"

text \<open>
  The client handle, as the options it is constructed from. Its \<open>endpoint\<close> is the
  object \<^verbatim>\<open>new IBMCOS.Endpoint(url)\<close> after construction and a plain string after
  \<open>configureEndpoint\<close> has assigned to it. A key that the options literal does not
  have is \<open>None\<close>. The field \<open>sdk_region\<close> is the key \<^verbatim>\<open>region\<close> of the options
  (the bucket has a property of that name too).
\<close>

datatype endpoint_value = Endpoint string | Str string

record s3Options =
  apiKeyId :: "string option"
  serviceInstanceId :: "string option"
  accessKeyId :: "string option"
  secretAccessKey :: "string option"
  sdk_region :: string
  endpoint :: endpoint_value

text \<open>
  A bucket of the extended bucket listing, and the listing itself.
\<close>

record bucket =
  Name :: string
  region :: "string option"
  LocationConstraint :: "string option"

record bucketsData =
  Buckets :: "bucket list"

text \<open>
  The endpoint document, as \<^verbatim>\<open>JSON.parse\<close> builds it. A locality class is the map of
  its own properties, from region keys to entries. The \<open>public\<close> property of an entry
  is \<open>None\<close> when the entry has none, and otherwise the list of its own properties in
  the order in which \<^verbatim>\<open>Object.keys\<close> and \<^verbatim>\<open>Object.values\<close> enumerate them.
\<close>

record region_entry =
  "public" :: "(string \<times> string) list option"

type_synonym locality_class = "string \<rightharpoonup> region_entry"

record serviceEndpoints =
  cross_region :: locality_class
  regional :: locality_class
  single_site :: locality_class

record endpoints_document =
  service_endpoints :: serviceEndpoints

text \<open>
  The objects of the document are plain objects, so the read \<^verbatim>\<open>class[key]\<close> finds the
  properties of \<^verbatim>\<open>Object.prototype\<close> too. Their names are listed here. A key that the
  class does not have itself and that is one of these names reads as a function (as
  \<^verbatim>\<open>Object.prototype\<close> itself for \<^verbatim>\<open>__proto__\<close>): a truthy value that has no
  \<^verbatim>\<open>public\<close> property, which is what the entry without \<open>public\<close> stands for. Any
  other key that the class does not have reads as \<^verbatim>\<open>undefined\<close>.
\<close>

definition Object_prototype :: "string list" where
  "Object_prototype =
     [''constructor'', ''__defineGetter__'', ''__defineSetter__'', ''hasOwnProperty'',
      ''__lookupGetter__'', ''__lookupSetter__'', ''isPrototypeOf'',
      ''propertyIsEnumerable'', ''toString'', ''valueOf'', ''__proto__'',
      ''toLocaleString'']"

definition get_property :: "locality_class \<Rightarrow> string \<Rightarrow> region_entry option" where
  "get_property obj key =
     (case obj key of
        Some e \<Rightarrow> Some e
      | None \<Rightarrow> if key \<in> set Object_prototype then Some \<lparr>public = None\<rparr> else None)"

section \<open>Client construction\<close>

text \<open>
  \<^verbatim>\<open>new IBMCOS.S3(s3Options)\<close> is the constructor of the SDK, which is not part of the
  program. The model keeps the client as its options, and the one failure of the
  constructor that the options of this program can meet: options with an access key id
  and without a secret access key (missing or empty) are refused with a
  \<^verbatim>\<open>TypeError\<close>.
\<close>

definition IBMCOS_S3 :: "s3Options \<Rightarrow> error + s3Options" where
  "IBMCOS_S3 s3Options =
     (if truthy (accessKeyId s3Options) \<and> \<not> truthy (secretAccessKey s3Options)
      then Inl (TypeError ''secretAccessKey'')
      else Inr s3Options)"

definition getS3 :: "string \<Rightarrow> serviceCredential \<Rightarrow> error + s3Options" where
  "getS3 endpoint' serviceCredential =
     (if truthy (apikey serviceCredential)
      then IBMCOS_S3
             \<lparr>apiKeyId = apikey serviceCredential,
              serviceInstanceId = resource_instance_id serviceCredential,
              accessKeyId = None,
              secretAccessKey = None,
              sdk_region = ''ibm'',
              endpoint = Endpoint endpoint'\<rparr>
      else Inl (Error ''IAM ApiKey required to create S3 Client''))"

definition getS3Hmac :: "string \<Rightarrow> serviceCredential \<Rightarrow> error + s3Options" where
  "getS3Hmac endpoint' serviceCredential =
     (case cos_hmac_keys serviceCredential of
        None \<Rightarrow> Inl (Error ''HMAC credentials required to create S3 Client using HMAC'')
      | Some keys \<Rightarrow>
          if truthy (access_key_id keys)
          then IBMCOS_S3
                 \<lparr>apiKeyId = None,
                  serviceInstanceId = None,
                  accessKeyId = access_key_id keys,
                  secretAccessKey = secret_access_key keys,
                  sdk_region = ''ibm'',
                  endpoint = Endpoint endpoint'\<rparr>
          else Inl (Error ''HMAC credentials required to create S3 Client using HMAC''))"

text \<open>
  The configuration copies a fixed set of properties of the parsed credentials; the HMAC
  keys are not among them. The listener builds the client of the process with \<open>getS3\<close>.
\<close>

definition CONFIG_serviceCredential :: "serviceCredential \<Rightarrow> serviceCredential" where
  "CONFIG_serviceCredential dotenv =
     \<lparr>apikey = apikey dotenv,
      resource_instance_id = resource_instance_id dotenv,
      cos_hmac_keys = None\<rparr>"

definition defaultEndpoint :: string where
  "defaultEndpoint = ''s3.us.cloud-object-storage.appdomain.cloud''"

definition listener_s3 :: "serviceCredential \<Rightarrow> error + s3Options" where
  "listener_s3 dotenv = getS3 defaultEndpoint (CONFIG_serviceCredential dotenv)"

section \<open>Endpoint of a bucket\<close>

text \<open>
  The first statement of \<open>findBucketEndpoint\<close>, the constant \<^verbatim>\<open>region\<close>: the
  \<open>region\<close> of the bucket when it is truthy, and otherwise the \<open>LocationConstraint\<close>
  cut at its last hyphen.
\<close>

definition derived_region :: "bucket \<Rightarrow> error + string" where
  "derived_region b =
     (case LocationConstraint b of
        None \<Rightarrow> Inl (TypeError ''substring'')
      | Some lc \<Rightarrow> Inr (substring lc 0 (lastIndexOf lc CHR ''-'')))"

definition bucket_region :: "bucket \<Rightarrow> error + string" where
  "bucket_region b =
     (case region b of
        None \<Rightarrow> derived_region b
      | Some r \<Rightarrow> if r \<noteq> [] then Inr r else derived_region b)"

text \<open>
  The constant \<^verbatim>\<open>regionUrls\<close>: the region key is read in the three locality classes,
  the reads joined with \<^verbatim>\<open>||\<close>.
\<close>

definition regionUrls :: "serviceEndpoints \<Rightarrow> string \<Rightarrow> region_entry option" where
  "regionUrls se r =
     (case get_property (cross_region se) r of
        Some e \<Rightarrow> Some e
      | None \<Rightarrow>
          (case get_property (regional se) r of
             Some e \<Rightarrow> Some e
           | None \<Rightarrow> get_property (single_site se) r))"

definition findBucketEndpoint :: "bucket option \<Rightarrow> endpoints_document \<Rightarrow> error + string" where
  "findBucketEndpoint b endpoints =
     (case b of
        None \<Rightarrow> Inl (TypeError ''region'')
      | Some bucket \<Rightarrow>
          (case bucket_region bucket of
             Inl e \<Rightarrow> Inl e
           | Inr r \<Rightarrow>
               (case regionUrls (service_endpoints endpoints) r of
                  None \<Rightarrow> Inl (TypeError ''public'')
                | Some urls \<Rightarrow>
                    (case public urls of
                       None \<Rightarrow> Inr []
                     | Some kvs \<Rightarrow>
                         if length kvs = 0 then Inr []
                         else Inr (snd (hd kvs))))))"

section \<open>Rebinding the endpoint of the client\<close>

text \<open>
  The object storage service is outside the program. It is a parameter: the answer to
  the \<open>n\<close>-th extended listing request, sent through a client with a prefix. The number
  of requests sent so far is part of the state.
\<close>

type_synonym backend = "nat \<Rightarrow> s3Options \<Rightarrow> string \<Rightarrow> error + bucketsData"

definition listBuckets ::
  "backend \<Rightarrow> nat \<Rightarrow> s3Options \<Rightarrow> string \<Rightarrow> (error + bucketsData) \<times> nat" where
  "listBuckets cos n s3 bucketName = (cos n s3 bucketName, Suc n)"

text \<open>
  The handler that \<open>configureEndpoint\<close> attaches with \<^verbatim>\<open>.catch\<close> evaluates
  \<^verbatim>\<open>res.send(err)\<close>. No scope around \<open>configureEndpoint\<close> binds \<^verbatim>\<open>res\<close> (it is a
  parameter of the route handlers only), so the handler throws.
\<close>

definition catch_handler :: "error \<Rightarrow> error + bucketsData" where
  "catch_handler err = Inl (ReferenceError ''res'')"

text \<open>
  \<^verbatim>\<open>Buckets[0]\<close> is \<^verbatim>\<open>undefined\<close> on an empty array.
\<close>

definition first_bucket :: "bucket list \<Rightarrow> bucket option" where
  "first_bucket bs = (case bs of [] \<Rightarrow> None | b # _ \<Rightarrow> Some b)"

text \<open>
  \<open>configureEndpoint\<close> takes the state (the client and the request count) and returns
  the outcome with the new state. The assignment to the endpoint is its last statement,
  so a failure leaves the client as it was. The directory is the global \<^verbatim>\<open>endpoints\<close>,
  which the listener assigns once; it is a parameter here.
\<close>

definition configureEndpoint ::
  "backend \<Rightarrow> endpoints_document \<Rightarrow> s3Options \<times> nat \<Rightarrow> string \<Rightarrow>
     (error + unit) \<times> (s3Options \<times> nat)" where
  "configureEndpoint cos endpoints st bucketName =
     (let (s3, n) = st;
          (answer, n') = listBuckets cos n s3 bucketName
      in case (case answer of Inl err \<Rightarrow> catch_handler err | Inr d \<Rightarrow> Inr d) of
           Inl e \<Rightarrow> (Inl e, (s3, n'))
         | Inr bucketsData \<Rightarrow>
             (let myBucket = first_bucket (Buckets bucketsData)
              in case findBucketEndpoint myBucket endpoints of
                   Inl e \<Rightarrow> (Inl e, (s3, n'))
                 | Inr url \<Rightarrow> (Inr (), (s3\<lparr>endpoint := Str url\<rparr>, n'))))"

section \<open>Example data\<close>

text \<open>
  Two backends: one that rejects every listing request with a given error, and one that
  answers every listing request with a given listing.
\<close>

definition rejecting :: "error \<Rightarrow> backend" where
  "rejecting e n s3 prefix = Inl e"

definition answering :: "bucketsData \<Rightarrow> backend" where
  "answering d n s3 prefix = Inr d"

text \<open>
  A client built from an API key, a listing with one bucket in \<open>eu-de\<close>, and a
  directory that has this region in its \<open>regional\<close> class only.
\<close>

definition iam_client :: s3Options where
  "iam_client =
     \<lparr>apiKeyId = Some ''K'', serviceInstanceId = Some ''R'',
      accessKeyId = None, secretAccessKey = None,
      sdk_region = ''ibm'', endpoint = Endpoint defaultEndpoint\<rparr>"

definition eu_de_listing :: bucketsData where
  "eu_de_listing =
     \<lparr>Buckets = [\<lparr>Name = ''b1'', region = None,
                  LocationConstraint = Some ''eu-de-standard''\<rparr>]\<rparr>"

definition eu_de_directory :: endpoints_document where
  "eu_de_directory =
     \<lparr>service_endpoints =
        \<lparr>cross_region = Map.empty,
         regional =
           [''eu-de'' \<mapsto> \<lparr>public = Some [(''default'', ''https://cos-eu-de.example.com'')]\<rparr>],
         single_site = Map.empty\<rparr>\<rparr>"

section \<open>Cutting a string at its last hyphen\<close>

lemma lastIndexOf_absent: "c \<notin> set s \<Longrightarrow> lastIndexOf s c = - 1"
  by (induction s) (auto simp: Let_def)

lemma lastIndexOf_last_occurrence:
  "c \<notin> set suf \<Longrightarrow> lastIndexOf (pre @ c # suf) c = int (length pre)"
  by (induction pre) (auto simp: Let_def lastIndexOf_absent)

lemma substring_prefix: "substring (pre @ rest) 0 (int (length pre)) = pre"
  by (simp add: substring_def Let_def)

lemma substring_negative_end: "substring s 0 (- 1) = []"
  by (simp add: substring_def Let_def)

section \<open>The region of a bucket\<close>

text \<open>
  C1, as amended. A \<open>region\<close> that is a non-empty string is used as it is. For a bucket
  whose \<open>region\<close> is not set or is the empty string, and whose \<open>LocationConstraint\<close> has
  a hyphen, the region is the part of the \<open>LocationConstraint\<close> before its last hyphen:
  for \<open>pre-suf\<close> with no hyphen in \<open>suf\<close> it is \<open>pre\<close>.
\<close>

theorem bucket_region_explicit_or_derived:
  "(region b = Some r \<and> r \<noteq> [] \<longrightarrow> bucket_region b = Inr r) \<and>
   ((region b' = None \<or> region b' = Some []) \<and>
    LocationConstraint b' = Some (pre @ CHR ''-'' # suf) \<and> CHR ''-'' \<notin> set suf \<longrightarrow>
    bucket_region b' = Inr pre)"
  by (auto simp: bucket_region_def derived_region_def lastIndexOf_last_occurrence
      substring_prefix)

theorem bucket_region_explicit_or_derived_witness:
  "bucket_region
     \<lparr>Name = ''b2'', region = Some ''eu-de'', LocationConstraint = Some ''us-south-standard''\<rparr> =
     Inr ''eu-de'' \<and>
   bucket_region
     \<lparr>Name = ''b1'', region = None, LocationConstraint = Some ''us-south-standard''\<rparr> =
     Inr ''us-south''"
  using bucket_region_explicit_or_derived
    [of "\<lparr>Name = ''b2'', region = Some ''eu-de'',
          LocationConstraint = Some ''us-south-standard''\<rparr>"
        "''eu-de''"
        "\<lparr>Name = ''b1'', region = None, LocationConstraint = Some ''us-south-standard''\<rparr>"
        "''us-south''" "''standard''"]
  by simp

text \<open>
  C1 as it is stated fails for a \<open>region\<close> that is set to the empty string: it is falsy,
  so the region is derived from the \<open>LocationConstraint\<close> and the empty string is not
  used.
\<close>

theorem bucket_region_empty_region_counterexample:
  "region \<lparr>Name = ''b1'', region = Some [],
           LocationConstraint = Some ''us-south-standard''\<rparr> = Some [] \<and>
   bucket_region \<lparr>Name = ''b1'', region = Some [],
                  LocationConstraint = Some ''us-south-standard''\<rparr> = Inr ''us-south'' \<and>
   bucket_region \<lparr>Name = ''b1'', region = Some [],
                  LocationConstraint = Some ''us-south-standard''\<rparr> \<noteq> Inr []"
  by (simp add: bucket_region_def derived_region_def substring_def)

text \<open>
  C4, as amended. For a bucket without a truthy \<open>region\<close> whose \<open>LocationConstraint\<close>
  has no hyphen, deriving the region does not fail: the region is the empty string.
\<close>

theorem bucket_region_no_hyphen:
  "region b = None \<or> region b = Some [] \<Longrightarrow>
   LocationConstraint b = Some lc \<Longrightarrow> CHR ''-'' \<notin> set lc \<Longrightarrow>
   bucket_region b = Inr []"
  by (auto simp: bucket_region_def derived_region_def lastIndexOf_absent
      substring_negative_end)

theorem bucket_region_no_hyphen_witness:
  "bucket_region \<lparr>Name = ''b1'', region = None, LocationConstraint = Some ''solo''\<rparr> = Inr []"
  using bucket_region_no_hyphen
    [of "\<lparr>Name = ''b1'', region = None, LocationConstraint = Some ''solo''\<rparr>" "''solo''"]
  by simp

text \<open>
  C4 as it is stated fails: for the \<open>LocationConstraint\<close> \<open>noseparator\<close> the derivation
  returns a region, the empty string, and not a failure.
\<close>

theorem bucket_region_no_hyphen_counterexample:
  "bucket_region
     \<lparr>Name = ''b1'', region = None, LocationConstraint = Some ''noseparator''\<rparr> = Inr [] \<and>
   \<not> isl (bucket_region
     \<lparr>Name = ''b1'', region = None, LocationConstraint = Some ''noseparator''\<rparr>)"
  by (simp add: bucket_region_def derived_region_def substring_def)

section \<open>The endpoint of a region\<close>



text \<open>
  C5, as amended. For every directory and every region key that a bucket gives and that
  is not the name of a property of \<^verbatim>\<open>Object.prototype\<close>, when none of the three
  locality classes has the key, finding the endpoint fails: reading \<open>public\<close> of the
  entry, which is \<^verbatim>\<open>undefined\<close>, throws a \<^verbatim>\<open>TypeError\<close>.
\<close>

theorem findBucketEndpoint_region_not_found:
  "bucket_region b = Inr r \<Longrightarrow>
   r \<notin> set Object_prototype \<Longrightarrow>
   cross_region (service_endpoints d) r = None \<Longrightarrow>
   regional (service_endpoints d) r = None \<Longrightarrow>
   single_site (service_endpoints d) r = None \<Longrightarrow>
   findBucketEndpoint (Some b) d = Inl (TypeError ''public'')"
  by (simp add: findBucketEndpoint_def regionUrls_def get_property_def)

theorem findBucketEndpoint_region_not_found_witness:
  "findBucketEndpoint
     (Some \<lparr>Name = ''b1'', region = Some ''ap-north'', LocationConstraint = None\<rparr>)
     eu_de_directory =
   Inl (TypeError ''public'')"
  using findBucketEndpoint_region_not_found
    [of "\<lparr>Name = ''b1'', region = Some ''ap-north'', LocationConstraint = None\<rparr>"
        "''ap-north''" eu_de_directory]
  by (simp add: bucket_region_def eu_de_directory_def Object_prototype_def)

text \<open>
  C5 as it is stated fails for the region key \<open>toString\<close>: no locality class of the
  directory has this key, and yet the read finds the function of that name in
  \<^verbatim>\<open>Object.prototype\<close>, which has no \<open>public\<close> property, so the empty string is
  returned and nothing fails.
\<close>

theorem findBucketEndpoint_inherited_key_counterexample:
  "cross_region (service_endpoints eu_de_directory) ''toString'' = None \<and>
   regional (service_endpoints eu_de_directory) ''toString'' = None \<and>
   single_site (service_endpoints eu_de_directory) ''toString'' = None \<and>
   findBucketEndpoint
     (Some \<lparr>Name = ''b1'', region = Some ''toString'', LocationConstraint = None\<rparr>)
     eu_de_directory = Inr [] \<and>
   \<not> isl (findBucketEndpoint
     (Some \<lparr>Name = ''b1'', region = Some ''toString'', LocationConstraint = None\<rparr>)
     eu_de_directory)"
  by (simp add: findBucketEndpoint_def regionUrls_def get_property_def
      Object_prototype_def bucket_region_def eu_de_directory_def)

text \<open>
  C6. For every directory and every region key that a bucket gives, when the entry of
  the region has no \<open>public\<close> mapping or an empty one, finding the endpoint returns the
  empty string and does not fail.
\<close>

theorem findBucketEndpoint_no_public_endpoint:
  "bucket_region b = Inr r \<Longrightarrow>
   regionUrls (service_endpoints d) r = Some e \<Longrightarrow>
   public e = None \<or> public e = Some [] \<Longrightarrow>
   findBucketEndpoint (Some b) d = Inr []"
  by (auto simp: findBucketEndpoint_def)

theorem findBucketEndpoint_no_public_endpoint_witness:
  "findBucketEndpoint
     (Some \<lparr>Name = ''b1'', region = Some ''eu-gb'', LocationConstraint = None\<rparr>)
     \<lparr>service_endpoints =
        \<lparr>cross_region = Map.empty,
         regional = Map.empty,
         single_site = [''eu-gb'' \<mapsto> \<lparr>public = Some []\<rparr>]\<rparr>\<rparr> =
   Inr []"
  using findBucketEndpoint_no_public_endpoint
    [of "\<lparr>Name = ''b1'', region = Some ''eu-gb'', LocationConstraint = None\<rparr>"
        "''eu-gb''"
        "\<lparr>service_endpoints =
           \<lparr>cross_region = Map.empty,
            regional = Map.empty,
            single_site = [''eu-gb'' \<mapsto> \<lparr>public = Some []\<rparr>]\<rparr>\<rparr>"
        "\<lparr>public = Some []\<rparr>"]
  by (simp add: bucket_region_def regionUrls_def get_property_def Object_prototype_def)

section \<open>Client construction: API key and HMAC keys\<close>

text \<open>
  C7. For every credential whose \<open>apikey\<close> is a non-empty string, \<open>getS3\<close> builds the
  IAM options: \<open>apiKeyId\<close> is the API key and \<open>serviceInstanceId\<close> is
  \<open>resource_instance_id\<close>, with no HMAC key among the options, whatever the HMAC keys
  of the credential are.
\<close>

theorem getS3_apikey_iam:
  "apikey c = Some k \<Longrightarrow> k \<noteq> [] \<Longrightarrow>
     getS3 ep (c\<lparr>cos_hmac_keys := h\<rparr>) =
       Inr \<lparr>apiKeyId = Some k,
            serviceInstanceId = resource_instance_id c,
            accessKeyId = None,
            secretAccessKey = None,
            sdk_region = ''ibm'',
            endpoint = Endpoint ep\<rparr>"
  by (simp add: getS3_def IBMCOS_S3_def truthy_def)

theorem getS3_apikey_iam_witness:
  "getS3 ''e''
     \<lparr>apikey = Some ''K'', resource_instance_id = Some ''R'',
      cos_hmac_keys = Some \<lparr>access_key_id = Some ''A'', secret_access_key = Some ''S''\<rparr>\<rparr> =
   Inr \<lparr>apiKeyId = Some ''K'',
        serviceInstanceId = Some ''R'',
        accessKeyId = None,
        secretAccessKey = None,
        sdk_region = ''ibm'',
        endpoint = Endpoint ''e''\<rparr>"
  using getS3_apikey_iam
    [of "\<lparr>apikey = Some ''K'', resource_instance_id = Some ''R'', cos_hmac_keys = None\<rparr>"
        "''K''" "''e''"
        "Some \<lparr>access_key_id = Some ''A'', secret_access_key = Some ''S''\<rparr>"]
  by simp

text \<open>
  C8, as amended. For every credential with a missing or empty \<open>apikey\<close> whose HMAC
  \<open>access_key_id\<close> and \<open>secret_access_key\<close> are non-empty strings, \<open>getS3Hmac\<close> builds
  the HMAC options: \<open>accessKeyId\<close> and \<open>secretAccessKey\<close> are the keys of the
  credential, with no API key among the options. No code chooses \<open>getS3Hmac\<close> from the
  credential, though: for every credential whose \<open>apikey\<close> is missing or empty, \<open>getS3\<close>
  fails, and so does the construction of the client in the listener, whatever the HMAC
  keys are.
\<close>

theorem getS3Hmac_binds_keys_and_getS3_needs_apikey:
  "((apikey c = None \<or> apikey c = Some []) \<and>
    cos_hmac_keys c = Some h \<and>
    access_key_id h = Some a \<and> a \<noteq> [] \<and>
    secret_access_key h = Some s \<and> s \<noteq> [] \<longrightarrow>
      getS3Hmac ep c =
        Inr \<lparr>apiKeyId = None,
             serviceInstanceId = None,
             accessKeyId = Some a,
             secretAccessKey = Some s,
             sdk_region = ''ibm'',
             endpoint = Endpoint ep\<rparr>) \<and>
   (apikey c = None \<or> apikey c = Some [] \<longrightarrow>
      getS3 ep c = Inl (Error ''IAM ApiKey required to create S3 Client'') \<and>
      listener_s3 c = Inl (Error ''IAM ApiKey required to create S3 Client''))"
  by (auto simp: getS3Hmac_def getS3_def IBMCOS_S3_def listener_s3_def
      CONFIG_serviceCredential_def truthy_def)

theorem getS3Hmac_binds_keys_and_getS3_needs_apikey_witness:
  "getS3Hmac ''e''
     \<lparr>apikey = Some [], resource_instance_id = None,
      cos_hmac_keys = Some \<lparr>access_key_id = Some ''A'', secret_access_key = Some ''S''\<rparr>\<rparr> =
     Inr \<lparr>apiKeyId = None,
          serviceInstanceId = None,
          accessKeyId = Some ''A'',
          secretAccessKey = Some ''S'',
          sdk_region = ''ibm'',
          endpoint = Endpoint ''e''\<rparr> \<and>
   getS3 ''e''
     \<lparr>apikey = Some [], resource_instance_id = None,
      cos_hmac_keys = Some \<lparr>access_key_id = Some ''A'', secret_access_key = Some ''S''\<rparr>\<rparr> =
     Inl (Error ''IAM ApiKey required to create S3 Client'')"
  using getS3Hmac_binds_keys_and_getS3_needs_apikey
    [of "\<lparr>apikey = Some [], resource_instance_id = None,
          cos_hmac_keys =
            Some \<lparr>access_key_id = Some ''A'', secret_access_key = Some ''S''\<rparr>\<rparr>"
        "\<lparr>access_key_id = Some ''A'', secret_access_key = Some ''S''\<rparr>"
        "''A''" "''S''" "''e''"]
  by simp

text \<open>
  C8 as it is stated fails: with an empty \<open>apikey\<close> and both HMAC keys set, the client
  of the process is not built from the HMAC keys; its construction fails.
\<close>

theorem listener_s3_hmac_only_counterexample:
  "listener_s3
     \<lparr>apikey = Some [], resource_instance_id = None,
      cos_hmac_keys = Some \<lparr>access_key_id = Some ''A'', secret_access_key = Some ''S''\<rparr>\<rparr> =
     Inl (Error ''IAM ApiKey required to create S3 Client'') \<and>
   getS3 defaultEndpoint
     \<lparr>apikey = Some [], resource_instance_id = None,
      cos_hmac_keys = Some \<lparr>access_key_id = Some ''A'', secret_access_key = Some ''S''\<rparr>\<rparr> =
     Inl (Error ''IAM ApiKey required to create S3 Client'')"
  by (simp add: listener_s3_def CONFIG_serviceCredential_def getS3_def truthy_def)

section \<open>Rebinding\<close>

lemma configureEndpoint_eu_de:
  "configureEndpoint (answering eu_de_listing) eu_de_directory (iam_client, n) ''b1'' =
     (Inr (), (iam_client\<lparr>endpoint := Str ''https://cos-eu-de.example.com''\<rparr>, Suc n))"
  by (simp add: configureEndpoint_def listBuckets_def answering_def eu_de_listing_def
      eu_de_directory_def first_bucket_def findBucketEndpoint_def bucket_region_def
      derived_region_def substring_def regionUrls_def get_property_def
      Object_prototype_def)

text \<open>
  What holds of the failures of a call. Every call sends one listing request, whatever
  its outcome. When the listing is answered, a failure of the rest of the call (taking
  the first bucket, deriving its region, finding the endpoint of the region) is the
  failure of the call. When the listing request fails, the call fails with the error of
  its own handler. In both cases the client is left as it was.
\<close>

lemma configureEndpoint_later_failure:
  "cos n s3 bucketName = Inr d \<Longrightarrow>
   findBucketEndpoint (first_bucket (Buckets d)) endpoints = Inl e \<Longrightarrow>
   configureEndpoint cos endpoints (s3, n) bucketName = (Inl e, (s3, Suc n))"
  by (simp add: configureEndpoint_def listBuckets_def)

lemma configureEndpoint_listing_failure:
  "cos n s3 bucketName = Inl err \<Longrightarrow>
   configureEndpoint cos endpoints (s3, n) bucketName =
     (Inl (ReferenceError ''res''), (s3, Suc n))"
  by (simp add: configureEndpoint_def listBuckets_def catch_handler_def)

lemma configureEndpoint_one_request:
  "snd (snd (configureEndpoint cos endpoints (s3, n) bucketName)) = Suc n"
  by (auto simp: configureEndpoint_def listBuckets_def catch_handler_def split: sum.splits)

text \<open>
  C3. The claim is that a call surfaces every failure to its caller and does not replace
  the error. The code breaks it for a failure of the listing request: when the request
  for the bucket \<open>b1\<close> is rejected with \<open>AccessDenied\<close>, the handler of the call throws
  while it evaluates \<^verbatim>\<open>res\<close>, and the caller gets that \<^verbatim>\<open>ReferenceError\<close> in place of
  the error of the request.
\<close>

theorem configureEndpoint_listing_failure_replaced:
  "configureEndpoint (rejecting (ServiceError ''AccessDenied'')) eu_de_directory
     (iam_client, 0) ''b1'' =
     (Inl (ReferenceError ''res''), (iam_client, Suc 0)) \<and>
   fst (configureEndpoint (rejecting (ServiceError ''AccessDenied'')) eu_de_directory
     (iam_client, 0) ''b1'') \<noteq> Inl (ServiceError ''AccessDenied'')"
  by (simp add: configureEndpoint_def listBuckets_def rejecting_def catch_handler_def)

text \<open>
  C9. When a call of \<open>configureEndpoint\<close> is followed by a second call with the same
  bucket name and the same directory, and the listing request of the second call gets
  the answer that the request of the first call got, the second call has the outcome of
  the first and leaves the client, and so its endpoint, as the first call left it.
\<close>

theorem configureEndpoint_idempotent:
  "configureEndpoint cos endpoints (s3, n) bucketName = (out, (s3', n')) \<Longrightarrow>
   cos n' s3' bucketName = cos n s3 bucketName \<Longrightarrow>
   configureEndpoint cos endpoints (s3', n') bucketName = (out, (s3', Suc n')) \<and>
   endpoint (fst (snd (configureEndpoint cos endpoints (s3', n') bucketName))) = endpoint s3'"
  by (auto simp: configureEndpoint_def listBuckets_def catch_handler_def split: sum.splits)

theorem configureEndpoint_idempotent_witness:
  "configureEndpoint (answering eu_de_listing) eu_de_directory
     (iam_client\<lparr>endpoint := Str ''https://cos-eu-de.example.com''\<rparr>, Suc 0) ''b1'' =
     (Inr (), (iam_client\<lparr>endpoint := Str ''https://cos-eu-de.example.com''\<rparr>, Suc (Suc 0)))"
proof -
  have same_answer:
    "answering eu_de_listing (Suc 0)
       (iam_client\<lparr>endpoint := Str ''https://cos-eu-de.example.com''\<rparr>) ''b1'' =
     answering eu_de_listing 0 iam_client ''b1''"
    by (simp add: answering_def)
  show ?thesis
    using configureEndpoint_idempotent [OF configureEndpoint_eu_de [of 0] same_answer]
    by simp
qed

text \<open>
  C10. A call of \<open>configureEndpoint\<close> changes no field of the client other than
  \<open>endpoint\<close>: the API key, the service instance, the HMAC keys and the region of the
  client after the call are those before it.
\<close>

theorem configureEndpoint_changes_endpoint_only:
  "configureEndpoint cos endpoints (s3, n) bucketName = (Inr (), (s3', n')) \<Longrightarrow>
   s3' = s3\<lparr>endpoint := endpoint s3'\<rparr> \<and>
   apiKeyId s3' = apiKeyId s3 \<and>
   serviceInstanceId s3' = serviceInstanceId s3 \<and>
   accessKeyId s3' = accessKeyId s3 \<and>
   secretAccessKey s3' = secretAccessKey s3 \<and>
   sdk_region s3' = sdk_region s3"
  by (auto simp: configureEndpoint_def listBuckets_def catch_handler_def split: sum.splits)

theorem configureEndpoint_changes_endpoint_only_witness:
  "fst (snd (configureEndpoint (answering eu_de_listing) eu_de_directory
       (iam_client, 0) ''b1'')) =
     iam_client\<lparr>endpoint := endpoint (fst (snd (configureEndpoint (answering eu_de_listing)
       eu_de_directory (iam_client, 0) ''b1'')))\<rparr> \<and>
   apiKeyId (fst (snd (configureEndpoint (answering eu_de_listing) eu_de_directory
       (iam_client, 0) ''b1''))) = apiKeyId iam_client \<and>
   serviceInstanceId (fst (snd (configureEndpoint (answering eu_de_listing) eu_de_directory
       (iam_client, 0) ''b1''))) = serviceInstanceId iam_client \<and>
   accessKeyId (fst (snd (configureEndpoint (answering eu_de_listing) eu_de_directory
       (iam_client, 0) ''b1''))) = accessKeyId iam_client \<and>
   secretAccessKey (fst (snd (configureEndpoint (answering eu_de_listing) eu_de_directory
       (iam_client, 0) ''b1''))) = secretAccessKey iam_client \<and>
   sdk_region (fst (snd (configureEndpoint (answering eu_de_listing) eu_de_directory
       (iam_client, 0) ''b1''))) = sdk_region iam_client"
proof -
  let ?call =
    "configureEndpoint (answering eu_de_listing) eu_de_directory (iam_client, 0) ''b1''"
  have succeeded: "?call = (Inr (), (fst (snd ?call), snd (snd ?call)))"
    by (simp add: configureEndpoint_eu_de)
  show ?thesis
    by (rule configureEndpoint_changes_endpoint_only [OF succeeded])
qed

end
